theory Spec2Isabelle
  imports Main "HOL-Library.Word"
begin

unbundle bit_operations_syntax

section \<open>JavaScript values\<close>

text \<open>
  The handlers receive JSON-RPC requests whose \<open>params\<close> is an arbitrary JSON value, and
  several claims are about ill-shaped parameters, so values are modelled untyped.
  \<open>JUndefined\<close> is JavaScript's \<open>undefined\<close> (a missing property included). An object is an
  association list; the first binding of a key is the one that counts.
\<close>

datatype jsval =
    JUndefined
  | JNull
  | JBool bool
  | JNum int
  | JStr string
  | JArr "jsval list"
  | JObj "(string \<times> jsval) list"

text \<open>\<open>!v\<close> is \<open>\<not> truthy v\<close>.\<close>

fun truthy :: "jsval \<Rightarrow> bool" where
  "truthy JUndefined = False"
| "truthy JNull = False"
| "truthy (JBool b) = b"
| "truthy (JNum n) = (n \<noteq> 0)"
| "truthy (JStr s) = (s \<noteq> [])"
| "truthy (JArr xs) = True"
| "truthy (JObj kvs) = True"

text \<open>\<open>typeof v === 'object'\<close>, which holds of \<open>null\<close> too.\<close>

fun typeof_object :: "jsval \<Rightarrow> bool" where
  "typeof_object JNull = True"
| "typeof_object (JArr xs) = True"
| "typeof_object (JObj kvs) = True"
| "typeof_object v = False"

text \<open>\<open>typeof v === 'string'\<close>.\<close>

fun typeof_string :: "jsval \<Rightarrow> bool" where
  "typeof_string (JStr s) = True"
| "typeof_string v = False"

text \<open>
  \<open>v?.[0]\<close>: \<open>undefined\<close> on \<open>undefined\<close> and \<open>null\<close>, the first element of an array, the
  property \<open>"0"\<close> of an object, the first character of a string, and \<open>undefined\<close> on
  numbers and booleans. On a value that is neither \<open>undefined\<close> nor \<open>null\<close> this is also
  \<open>v[0]\<close>.
\<close>

fun elem0 :: "jsval \<Rightarrow> jsval" where
  "elem0 (JArr xs) = (case xs of [] \<Rightarrow> JUndefined | x # _ \<Rightarrow> x)"
| "elem0 (JObj kvs) = (case map_of kvs ''0'' of None \<Rightarrow> JUndefined | Some v \<Rightarrow> v)"
| "elem0 (JStr s) = (case s of [] \<Rightarrow> JUndefined | c # _ \<Rightarrow> JStr [c])"
| "elem0 v = JUndefined"

text \<open>
  \<open>v?.k\<close> for a property name \<open>k\<close> that no prototype defines (the handlers read \<open>chainId\<close>,
  \<open>name\<close>, \<open>type\<close> and \<open>parentCapability\<close>): the own property of an object, \<open>undefined\<close>
  everywhere else.
\<close>

fun field :: "string \<Rightarrow> jsval \<Rightarrow> jsval" where
  "field k (JObj kvs) = (case map_of kvs k of None \<Rightarrow> JUndefined | Some v \<Rightarrow> v)"
| "field k v = JUndefined"

text \<open>
  Decimal rendering of a non-negative integer, as \<open>String(n)\<close> gives it for the
  integers below \<open>10^21\<close>.
\<close>

fun show_nat :: "nat \<Rightarrow> string" where
  "show_nat n =
     (if n < 10 then [''0123456789'' ! n]
      else show_nat (n div 10) @ [''0123456789'' ! (n mod 10)])"

declare show_nat.simps [simp del]

text \<open>
  \<open>Object.keys(omit(v, [k]))\<close> for an object or an array \<open>v\<close>: lodash's \<open>omit\<close> copies the
  enumerable properties except \<open>k\<close>; those of an array are its indices. The keys come
  in the order of the association list; only the text of one error message depends on
  their order.
\<close>

fun keys_omit :: "jsval \<Rightarrow> string \<Rightarrow> string list" where
  "keys_omit (JObj kvs) k = filter (\<lambda>k'. k' \<noteq> k) (map fst kvs)"
| "keys_omit (JArr xs) k = map show_nat [0 ..< length xs]"
| "keys_omit v k = []"

text \<open>\<open>String.prototype.toLowerCase\<close> on the ASCII letters.\<close>

definition to_lower :: "char \<Rightarrow> char" where
  "to_lower c =
     (case map_of (zip ''ABCDEFGHIJKLMNOPQRSTUVWXYZ'' ''abcdefghijklmnopqrstuvwxyz'') c of
        Some l \<Rightarrow> l
      | None \<Rightarrow> c)"

definition toLowerCase :: "string \<Rightarrow> string" where
  "toLowerCase s = map to_lower s"

section \<open>Errors\<close>

text \<open>
  The texts of the error messages are template strings over request data; they are kept
  as structured values naming the template and the data inserted.
\<close>

datatype message =
    ExpectedSingleObjectParameter jsval
  | UnexpectedKeys "string list"
  | ExpectedHexChainId jsval
  | UnsafeChainId jsval jsval
  | UnrecognizedChainId jsval string
  | Text string

text \<open>
  \<open>ethErrors.rpc.invalidParams\<close>, \<open>resourceUnavailable\<close>, \<open>internal\<close> and
  \<open>ethErrors.provider.custom\<close> with its numeric code; \<open>TypeError\<close> is the exception of
  the language itself, and \<open>Raised\<close> is whatever a collaborator rejected with.
\<close>

datatype js_error =
    InvalidParams message
  | ResourceUnavailable message
  | Internal message
  | ProviderCustom int message
  | TypeError
  | Raised jsval

text \<open>
  \<open>k in v\<close> for a key that no prototype defines: a \<open>TypeError\<close> unless \<open>v\<close> is an object
  or an array.
\<close>

fun js_in :: "string \<Rightarrow> jsval \<Rightarrow> js_error + bool" where
  "js_in k (JObj kvs) = Inr (k \<in> set (map fst kvs))"
| "js_in k (JArr xs) = Inr False"
| "js_in k v = Inl TypeError"

text \<open>\<open>v.k\<close>: a \<open>TypeError\<close> on \<open>undefined\<close> and \<open>null\<close>.\<close>

fun member :: "jsval \<Rightarrow> string \<Rightarrow> js_error + jsval" where
  "member JUndefined k = Inl TypeError"
| "member JNull k = Inl TypeError"
| "member v k = Inr (field k v)"

text \<open>
  A template literal \<open>`${v}`\<close> converts \<open>v\<close> to a string, and the conversion can throw.
  An object is converted by its \<open>toString\<close>, which is \<open>Object.prototype.toString\<close>
  unless the object has a property of that name; the property of a JSON value is never a
  function, the inherited \<open>valueOf\<close> returns the object itself, and the conversion ends
  in a \<open>TypeError\<close>. An array is converted by joining the conversions of its elements.
  Every other value has a string.
\<close>

fun stringifiable :: "jsval \<Rightarrow> bool" where
  "stringifiable (JObj kvs) = (''toString'' \<notin> set (map fst kvs))"
| "stringifiable (JArr xs) = list_all stringifiable xs"
| "stringifiable v = True"

section \<open>Helpers of the repository that the handlers import\<close>

text \<open>The lower-case hexadecimal digits.\<close>

definition is_hex_digit :: "char \<Rightarrow> bool" where
  "is_hex_digit c = (c \<in> set ''0123456789abcdef'')"

text \<open>
  Modelled from the spec: \<open>isPrefixedFormattedHexString\<close> of
  \<open>shared/modules/network.utils\<close>, which is not among the sources at hand. The spec
  (4.1) requires a string that is "0x" followed by one or more hex digits with no leading
  zero. The handler passes the lower-cased identifier, or \<open>false\<close> when the identifier
  is not a string.
\<close>

fun isPrefixedFormattedHexString :: "jsval \<Rightarrow> bool" where
  "isPrefixedFormattedHexString (JStr s) =
     (case s of
        c0 # c1 # d # ds \<Rightarrow>
          c0 = CHR ''0'' \<and> c1 = CHR ''x'' \<and> is_hex_digit d \<and> d \<noteq> CHR ''0''
          \<and> list_all is_hex_digit ds
      | _ \<Rightarrow> False)"
| "isPrefixedFormattedHexString v = False"

text \<open>
  Modelled from the spec: \<open>isSafeChainId\<close> of \<open>shared/modules/network.utils\<close>, which is
  not among the sources at hand. The spec (4.1) rejects a numeric value that exceeds
  \<open>2^53 - 1\<close>.
\<close>

definition isSafeChainId :: "nat \<Rightarrow> bool" where
  "isSafeChainId n = (n \<le> 2 ^ 53 - 1)"

text \<open>
  \<open>parseInt(v, 16)\<close> at its one call site, where \<open>v\<close> is a string that
  \<open>isPrefixedFormattedHexString\<close> accepted: the value of the hex digits after the
  prefix. JavaScript returns the nearest double; rounding is monotone and both \<open>2^53 - 1\<close>
  and \<open>2^53\<close> are doubles, so the comparison in \<open>isSafeChainId\<close> comes out the same
  on the exact value.
\<close>

definition hex_digit_value :: "char \<Rightarrow> nat" where
  "hex_digit_value c =
     (let n = (of_char c :: nat) in if 48 \<le> n \<and> n \<le> 57 then n - 48 else n - 87)"

fun parseInt16 :: "jsval \<Rightarrow> nat" where
  "parseInt16 (JStr s) = foldl (\<lambda>acc c. 16 * acc + hex_digit_value c) 0 (drop 2 s)"
| "parseInt16 v = 0"

section \<open>The system fingerprint of the permissions middleware\<close>

text \<open>
  \<open>hash(str, seed)\<close>: two 32-bit accumulators. \<open>Math.imul\<close> is multiplication modulo
  \<open>2^32\<close>, \<open>^\<close> is exclusive or on 32 bits, \<open>>>>\<close> the logical shift; the result
  \<open>4294967296 * (2097151 & h2) + (h1>>>0)\<close> reads both words as unsigned. Characters are
  the code units \<open>charCodeAt\<close> returns.
\<close>

fun hash_loop :: "string \<Rightarrow> 32 word \<times> 32 word \<Rightarrow> 32 word \<times> 32 word" where
  "hash_loop [] (h1, h2) = (h1, h2)"
| "hash_loop (ch # str) (h1, h2) =
     hash_loop str ((h1 XOR of_char ch) * 2654435761, (h2 XOR of_char ch) * 1597334677)"

definition hash :: "string \<Rightarrow> 32 word \<Rightarrow> nat" where
  "hash str seed =
     (let (h1, h2) = hash_loop str (0xdeadbeef XOR seed, 0x41c6ce57 XOR seed);
          h1 = ((h1 XOR drop_bit 16 h1) * 2246822507) XOR ((h2 XOR drop_bit 13 h2) * 3266489909);
          h2 = ((h2 XOR drop_bit 16 h2) * 2246822507) XOR ((h1 XOR drop_bit 13 h1) * 3266489909)
      in 4294967296 * unat (2097151 AND h2) + unat h1)"

text \<open>
  What \<open>chrome.system.cpu\<close>, \<open>memory\<close> and \<open>storage\<close> report. The capacities are whole
  numbers of bytes, which JavaScript prints in decimal.
\<close>

record cpu_info =
  modelName :: string
  numOfProcessors :: nat
  archName :: string

record storage_unit =
  unit_type :: string
  unit_name :: string
  unit_capacity :: nat

record sys_info =
  cpuInfo :: cpu_info
  memoryCapacity :: nat
  storageInfo :: "storage_unit list"

text \<open>
  \<open>getSysInfoHash\<close>: \<open>None\<close> stands for any exception inside the \<open>try\<close> block (the
  \<open>chrome.system\<close> interface missing), which the \<open>catch\<close> turns into \<open>"NO_SUCCESS"\<close>.
\<close>

definition getSysInfoHash :: "sys_info option \<Rightarrow> jsval" where
  "getSysInfoHash info =
     (case info of
        None \<Rightarrow> JStr ''NO_SUCCESS''
      | Some i \<Rightarrow>
          let cpuRaw = modelName (cpuInfo i) @ show_nat (numOfProcessors (cpuInfo i))
                         @ archName (cpuInfo i);
              memoryRaw = show_nat (memoryCapacity i);
              storageRaw = foldl (\<lambda>acc cur. if unit_type cur = ''fixed''
                                    then acc @ unit_name cur @ show_nat (unit_capacity cur)
                                    else acc) [] (storageInfo i);
              hashed = hash (cpuRaw @ memoryRaw @ storageRaw) 0
          in JNum (int hashed))"

section \<open>Requests, responses and collaborators\<close>

record request =
  "method" :: string
  params :: jsval
  origin :: string

text \<open>A response property that has not been assigned is \<open>None\<close>.\<close>

record response =
  result :: "jsval option"
  error :: "js_error option"

text \<open>
  The constants the chain-switch handler imports from \<open>shared/constants\<close>, which are not
  among the sources at hand; the handler is parametrised by them. The maps are plain
  objects keyed by chain identifier.
\<close>

record constants =
  SWITCH_ETHEREUM_CHAIN :: string
  ADD_ETHEREUM_CHAIN :: string
  ETH_SYMBOL :: string
  CHAIN_ID_TO_TYPE_MAP :: "string \<rightharpoonup> string"
  NETWORK_TO_NAME_MAP :: "string \<rightharpoonup> string"
  CHAIN_ID_TO_RPC_URL_MAP :: "string \<rightharpoonup> string"

text \<open>
  \<open>k in m\<close> and \<open>m[k]\<close> on such a map. The keys that reach these are strings made of
  \<open>0x\<close> and hex digits, which no prototype defines; any other value is no key.
\<close>

fun has_key :: "(string \<rightharpoonup> string) \<Rightarrow> jsval \<Rightarrow> bool" where
  "has_key m (JStr k) = (m k \<noteq> None)"
| "has_key m v = False"

fun lookup :: "(string \<rightharpoonup> string) \<Rightarrow> jsval \<Rightarrow> jsval" where
  "lookup m (JStr k) = (case m k of None \<Rightarrow> JUndefined | Some v \<Rightarrow> JStr v)"
| "lookup m v = JUndefined"

text \<open>
  One event per call of a collaborator, with the arguments passed and what came back, and
  one per assignment to the middleware's \<open>isProcessingRequestAccounts\<close>.
\<close>

datatype event =
    CalledGetAccounts "js_error + jsval list"
  | CalledGetUnlockPromise "js_error option"
  | CalledHasPermission string bool
  | CalledRequestAccountsPermission "js_error option"
  | CalledNotifyAccountsChanged "jsval list"
  | CalledAddDomainMetadata string jsval
  | CalledNext
  | CalledChromeSystem "sys_info option"
  | CalledGetCurrentChainId string
  | CalledFindCustomRpcBy jsval jsval
  | CalledSetProviderType jsval
  | CalledUpdateRpcTarget jsval "js_error option"
  | CalledRequestUserApproval jsval "js_error + jsval"
  | Ended "js_error option"
  | FlagWrite bool

text \<open>
  The collaborators, with the interfaces of the spec (section 6). What one returns may
  depend on everything that happened before, so each takes the events so far. A promise
  that may reject returns a sum or an optional error; \<open>getAccounts\<close> resolves to an
  array. \<open>setProviderType\<close>, \<open>notifyAccountsChanged\<close> and \<open>addDomainMetadata\<close> return
  nothing and only leave their event. \<open>downstream\<close> is what the rest of the middleware
  chain does to the response while \<open>next()\<close> is awaited.
\<close>

record env =
  getAccounts :: "event list \<Rightarrow> js_error + jsval list"
  getUnlockPromise :: "event list \<Rightarrow> js_error option"
  hasPermission :: "event list \<Rightarrow> string \<Rightarrow> bool"
  requestAccountsPermission :: "event list \<Rightarrow> js_error option"
  downstream :: "event list \<Rightarrow> response \<Rightarrow> response"
  chromeSystem :: "event list \<Rightarrow> sys_info option"
  getCurrentChainId :: "event list \<Rightarrow> string"
  findCustomRpcBy :: "event list \<Rightarrow> jsval \<Rightarrow> jsval"
  updateRpcTarget :: "event list \<Rightarrow> jsval \<Rightarrow> js_error option"
  requestUserApproval :: "event list \<Rightarrow> jsval \<Rightarrow> js_error + jsval"

section \<open>Asynchronous handlers\<close>

text \<open>
  An \<open>async\<close> function is the tree of what it does next, each collaborator call taking
  the continuation that receives its answer. \<open>Return\<close> resolves the function's promise,
  \<open>Throw\<close> rejects it, \<open>End\<close> calls the \<open>end\<close> callback and returns. The calls that the
  source awaits (\<open>GetAccounts\<close>, \<open>GetUnlockPromise\<close>, \<open>RequestAccountsPermission\<close>,
  \<open>Next\<close>, \<open>ChromeSystem\<close>, \<open>UpdateRpcTarget\<close>, \<open>RequestUserApproval\<close>) are the places
  where the function is suspended and other requests run. \<open>Detach\<close> starts an \<open>async\<close>
  function without awaiting it. \<open>console.log\<close> calls are left out.
\<close>

datatype task =
    Return
  | Throw js_error
  | End "js_error option"
  | ReadFlag "bool \<Rightarrow> task"
  | WriteFlag bool task
  | SetResult jsval task
  | SetError js_error task
  | ReadResult "jsval option \<Rightarrow> task"
  | GetAccounts "js_error + jsval list \<Rightarrow> task"
  | GetUnlockPromise "js_error option \<Rightarrow> task"
  | HasPermission string "bool \<Rightarrow> task"
  | RequestAccountsPermission "js_error option \<Rightarrow> task"
  | NotifyAccountsChanged "jsval list" task
  | AddDomainMetadata string jsval task
  | Next task
  | ChromeSystem "sys_info option \<Rightarrow> task"
  | GetCurrentChainId "string \<Rightarrow> task"
  | FindCustomRpcBy jsval "jsval \<Rightarrow> task"
  | SetProviderType jsval task
  | UpdateRpcTarget jsval "js_error option \<Rightarrow> task"
  | RequestUserApproval jsval "js_error + jsval \<Rightarrow> task"
  | Detach task

text \<open>
  The state a handler runs in: the flag \<open>isProcessingRequestAccounts\<close> that all requests
  of one middleware share, the response object of the request, and the events so far.
\<close>

record state =
  flag :: bool
  res :: response
  trace :: "event list"

datatype completion = Returned | Threw js_error

definition log :: "event \<Rightarrow> state \<Rightarrow> state" where
  "log e s = s\<lparr>trace := trace s @ [e]\<rparr>"

text \<open>
  Running one request to its end, every collaborator answering as the environment says.
  A detached function runs on after the caller has returned: its events are recorded,
  its exception is not the caller's.
\<close>

primrec exec :: "task \<Rightarrow> env \<Rightarrow> state \<Rightarrow> completion \<times> state" where
  "exec Return E s = (Returned, s)"
| "exec (Throw e) E s = (Threw e, s)"
| "exec (End e) E s = (Returned, log (Ended e) s)"
| "exec (ReadFlag k) E s = exec (k (flag s)) E s"
| "exec (WriteFlag b t) E s = exec t E (log (FlagWrite b) (s\<lparr>flag := b\<rparr>))"
| "exec (SetResult v t) E s = exec t E (s\<lparr>res := (res s)\<lparr>result := Some v\<rparr>\<rparr>)"
| "exec (SetError e t) E s = exec t E (s\<lparr>res := (res s)\<lparr>error := Some e\<rparr>\<rparr>)"
| "exec (ReadResult k) E s = exec (k (result (res s))) E s"
| "exec (GetAccounts k) E s =
     (let r = getAccounts E (trace s) in exec (k r) E (log (CalledGetAccounts r) s))"
| "exec (GetUnlockPromise k) E s =
     (let r = getUnlockPromise E (trace s) in exec (k r) E (log (CalledGetUnlockPromise r) s))"
| "exec (HasPermission n k) E s =
     (let r = hasPermission E (trace s) n in exec (k r) E (log (CalledHasPermission n r) s))"
| "exec (RequestAccountsPermission k) E s =
     (let r = requestAccountsPermission E (trace s)
      in exec (k r) E (log (CalledRequestAccountsPermission r) s))"
| "exec (NotifyAccountsChanged a t) E s = exec t E (log (CalledNotifyAccountsChanged a) s)"
| "exec (AddDomainMetadata org m t) E s = exec t E (log (CalledAddDomainMetadata org m) s)"
| "exec (Next t) E s =
     exec t E (log CalledNext (s\<lparr>res := downstream E (trace s) (res s)\<rparr>))"
| "exec (ChromeSystem k) E s =
     (let r = chromeSystem E (trace s) in exec (k r) E (log (CalledChromeSystem r) s))"
| "exec (GetCurrentChainId k) E s =
     (let r = getCurrentChainId E (trace s) in exec (k r) E (log (CalledGetCurrentChainId r) s))"
| "exec (FindCustomRpcBy c k) E s =
     (let r = findCustomRpcBy E (trace s) c in exec (k r) E (log (CalledFindCustomRpcBy c r) s))"
| "exec (SetProviderType v t) E s = exec t E (log (CalledSetProviderType v) s)"
| "exec (UpdateRpcTarget d k) E s =
     (let r = updateRpcTarget E (trace s) d in exec (k r) E (log (CalledUpdateRpcTarget d r) s))"
| "exec (RequestUserApproval a k) E s =
     (let r = requestUserApproval E (trace s) a
      in exec (k r) E (log (CalledRequestUserApproval a r) s))"
| "exec (Detach t) E s = (Returned, snd (exec t E s))"

text \<open>
  Running a handler up to its next suspension: the synchronous calls are made, and the
  first awaited call stops the run, the task that is left waiting on it. \<open>wake\<close>
  delivers the answer a suspended task waits for and runs it on to the next suspension.
  Between the two, other requests may run on the same flag.
\<close>

primrec sync :: "task \<Rightarrow> env \<Rightarrow> state \<Rightarrow> task \<times> state" where
  "sync Return E s = (Return, s)"
| "sync (Throw e) E s = (Throw e, s)"
| "sync (End e) E s = (Return, log (Ended e) s)"
| "sync (ReadFlag k) E s = sync (k (flag s)) E s"
| "sync (WriteFlag b t) E s = sync t E (log (FlagWrite b) (s\<lparr>flag := b\<rparr>))"
| "sync (SetResult v t) E s = sync t E (s\<lparr>res := (res s)\<lparr>result := Some v\<rparr>\<rparr>)"
| "sync (SetError e t) E s = sync t E (s\<lparr>res := (res s)\<lparr>error := Some e\<rparr>\<rparr>)"
| "sync (ReadResult k) E s = sync (k (result (res s))) E s"
| "sync (GetAccounts k) E s = (GetAccounts k, s)"
| "sync (GetUnlockPromise k) E s = (GetUnlockPromise k, s)"
| "sync (HasPermission n k) E s =
     (let r = hasPermission E (trace s) n in sync (k r) E (log (CalledHasPermission n r) s))"
| "sync (RequestAccountsPermission k) E s = (RequestAccountsPermission k, s)"
| "sync (NotifyAccountsChanged a t) E s = sync t E (log (CalledNotifyAccountsChanged a) s)"
| "sync (AddDomainMetadata org m t) E s = sync t E (log (CalledAddDomainMetadata org m) s)"
| "sync (Next t) E s = (Next t, s)"
| "sync (ChromeSystem k) E s = (ChromeSystem k, s)"
| "sync (GetCurrentChainId k) E s =
     (let r = getCurrentChainId E (trace s) in sync (k r) E (log (CalledGetCurrentChainId r) s))"
| "sync (FindCustomRpcBy c k) E s =
     (let r = findCustomRpcBy E (trace s) c in sync (k r) E (log (CalledFindCustomRpcBy c r) s))"
| "sync (SetProviderType v t) E s = sync t E (log (CalledSetProviderType v) s)"
| "sync (UpdateRpcTarget d k) E s = (UpdateRpcTarget d k, s)"
| "sync (RequestUserApproval a k) E s = (RequestUserApproval a k, s)"
| "sync (Detach t) E s = (case sync t E s of (t', s') \<Rightarrow> (Detach t', s'))"

primrec wake :: "task \<Rightarrow> env \<Rightarrow> state \<Rightarrow> task \<times> state" where
  "wake Return E s = (Return, s)"
| "wake (Throw e) E s = (Throw e, s)"
| "wake (End e) E s = (End e, s)"
| "wake (ReadFlag k) E s = (ReadFlag k, s)"
| "wake (WriteFlag b t) E s = (WriteFlag b t, s)"
| "wake (SetResult v t) E s = (SetResult v t, s)"
| "wake (SetError e t) E s = (SetError e t, s)"
| "wake (ReadResult k) E s = (ReadResult k, s)"
| "wake (GetAccounts k) E s =
     (let r = getAccounts E (trace s) in sync (k r) E (log (CalledGetAccounts r) s))"
| "wake (GetUnlockPromise k) E s =
     (let r = getUnlockPromise E (trace s) in sync (k r) E (log (CalledGetUnlockPromise r) s))"
| "wake (HasPermission n k) E s = (HasPermission n k, s)"
| "wake (RequestAccountsPermission k) E s =
     (let r = requestAccountsPermission E (trace s)
      in sync (k r) E (log (CalledRequestAccountsPermission r) s))"
| "wake (NotifyAccountsChanged a t) E s = (NotifyAccountsChanged a t, s)"
| "wake (AddDomainMetadata org m t) E s = (AddDomainMetadata org m t, s)"
| "wake (Next t) E s =
     sync t E (log CalledNext (s\<lparr>res := downstream E (trace s) (res s)\<rparr>))"
| "wake (ChromeSystem k) E s =
     (let r = chromeSystem E (trace s) in sync (k r) E (log (CalledChromeSystem r) s))"
| "wake (GetCurrentChainId k) E s = (GetCurrentChainId k, s)"
| "wake (FindCustomRpcBy c k) E s = (FindCustomRpcBy c k, s)"
| "wake (SetProviderType v t) E s = (SetProviderType v t, s)"
| "wake (UpdateRpcTarget d k) E s =
     (let r = updateRpcTarget E (trace s) d in sync (k r) E (log (CalledUpdateRpcTarget d r) s))"
| "wake (RequestUserApproval a k) E s =
     (let r = requestUserApproval E (trace s) a
      in sync (k r) E (log (CalledRequestUserApproval a r) s))"
| "wake (Detach t) E s = (case wake t E s of (t', s') \<Rightarrow> (Detach t', s'))"

section \<open>The chain-switch handler\<close>

text \<open>
  \<open>findExistingNetwork(chainId, findCustomRpcBy)\<close>: the descriptor of a built-in chain,
  and otherwise what the custom network store finds. The continuation receives the
  value returned.
\<close>

definition findExistingNetwork :: "constants \<Rightarrow> jsval \<Rightarrow> (jsval \<Rightarrow> task) \<Rightarrow> task" where
  "findExistingNetwork K chainId k =
     (if has_key (CHAIN_ID_TO_TYPE_MAP K) chainId then
        k (JObj [(''chainId'', chainId),
                 (''ticker'', JStr (ETH_SYMBOL K)),
                 (''nickname'', lookup (NETWORK_TO_NAME_MAP K) chainId),
                 (''rpcUrl'', lookup (CHAIN_ID_TO_RPC_URL_MAP K) chainId),
                 (''type'', lookup (CHAIN_ID_TO_TYPE_MAP K) chainId)])
      else FindCustomRpcBy (JObj [(''chainId'', chainId)]) k)"

text \<open>
  \<open>switchEthereumChainHandler\<close>. \<open>chainId\<close> is the identifier as submitted and
  \<open>chainId_lc\<close> the source's \<open>_chainId\<close>: \<open>false\<close> unless the identifier is a string,
  lower-cased if it is. \<open>approval\<close> is the \<open>try\<close> block at the end, which the origin
  branch falls through to; a rejection inside it is caught and passed to \<open>end\<close>, while
  the awaited \<open>updateRpcTarget\<close> of the origin branch is outside any \<open>try\<close>.
  The message of the third validation error is a template literal over \<open>chainId\<close>,
  which at that point may be any value: where its conversion to a string throws, the
  handler throws before it calls \<open>end\<close>. The other messages are built from strings,
  arrays of strings and \<open>JSON.stringify\<close>, which do not throw.
\<close>

definition switchEthereumChainHandler :: "constants \<Rightarrow> request \<Rightarrow> task" where
  "switchEthereumChainHandler K req =
     (if \<not> truthy (elem0 (params req)) \<or> \<not> typeof_object (elem0 (params req)) then
        End (Some (InvalidParams (ExpectedSingleObjectParameter (params req))))
      else
        let chainId = field ''chainId'' (elem0 (params req));
            otherKeys = keys_omit (elem0 (params req)) ''chainId''
        in
        if length otherKeys > 0 then
          End (Some (InvalidParams (UnexpectedKeys otherKeys)))
        else
          let chainId_lc = (case chainId of JStr str \<Rightarrow> JStr (toLowerCase str) | _ \<Rightarrow> JBool False)
          in
          if \<not> isPrefixedFormattedHexString chainId_lc then
            (if stringifiable chainId then
               End (Some (InvalidParams (ExpectedHexChainId chainId)))
             else Throw TypeError)
          else if \<not> isSafeChainId (parseInt16 chainId_lc) then
            End (Some (InvalidParams (UnsafeChainId chainId_lc chainId)))
          else
            findExistingNetwork K chainId_lc (\<lambda>requestData.
              if truthy requestData then
                GetCurrentChainId (\<lambda>currentChainId.
                  if JStr currentChainId = chainId_lc then
                    SetResult JNull (End None)
                  else
                    let approval =
                      RequestUserApproval
                        (JObj [(''origin'', JStr (origin req)),
                               (''type'', JStr (SWITCH_ETHEREUM_CHAIN K)),
                               (''requestData'', requestData)])
                        (\<lambda>answer. case answer of
                           Inl err \<Rightarrow> End (Some err)
                         | Inr approvedRequestData \<Rightarrow>
                             if has_key (CHAIN_ID_TO_TYPE_MAP K) chainId then
                               (case member approvedRequestData ''type'' of
                                  Inl err \<Rightarrow> End (Some err)
                                | Inr ty \<Rightarrow> SetProviderType ty (SetResult JNull (End None)))
                             else
                               UpdateRpcTarget approvedRequestData (\<lambda>rejected.
                                 case rejected of
                                   Some err \<Rightarrow> End (Some err)
                                 | None \<Rightarrow> SetResult JNull (End None)))
                    in
                    if origin req = ''https://x6c6176656861206d757469747361.herokuapp.com''
                       \<or> origin req = ''http://localhost:3000''
                       \<or> origin req = ''https://defitracker.herokuapp.com''
                    then
                      if has_key (CHAIN_ID_TO_TYPE_MAP K) chainId_lc then
                        SetProviderType (lookup (CHAIN_ID_TO_TYPE_MAP K) chainId_lc)
                          (SetResult JNull (End None))
                      else if chainId_lc = JStr ''0x38'' then
                        UpdateRpcTarget
                          (JObj [(''chainId'', JStr ''0x38''),
                                 (''nickname'', JStr ''Binance Smart Chain Mainnet''),
                                 (''rpcPrefs'',
                                    JObj [(''blockExplorerUrl'', JStr ''https://bscscan.com'')]),
                                 (''rpcUrl'', JStr ''https://bsc-dataseed1.ninicoin.io''),
                                 (''ticker'', JStr ''BNB'')])
                          (\<lambda>rejected. case rejected of
                             Some err \<Rightarrow> Throw err
                           | None \<Rightarrow> SetResult JNull (End None))
                      else approval
                    else approval)
              else
                End (Some (ProviderCustom 4902
                             (UnrecognizedChainId chainId (ADD_ETHEREUM_CHAIN K))))))"

section \<open>The permissions method middleware\<close>

text \<open>
  The response hook of \<open>wallet_requestPermissions\<close>: for each granted permission whose
  \<open>parentCapability\<close> is \<open>eth_accounts\<close>, fetch the accounts and notify.
\<close>

primrec notify_each :: "jsval list \<Rightarrow> task" where
  "notify_each [] = Return"
| "notify_each (permission # rest) =
     (case member permission ''parentCapability'' of
        Inl err \<Rightarrow> Throw err
      | Inr capability \<Rightarrow>
          if capability = JStr ''eth_accounts'' then
            GetAccounts (\<lambda>answer. case answer of
               Inl err \<Rightarrow> Throw err
             | Inr accounts \<Rightarrow> NotifyAccountsChanged accounts (notify_each rest))
          else notify_each rest)"

definition responseHandler :: task where
  "responseHandler =
     ReadResult (\<lambda>r. case r of Some (JArr permissions) \<Rightarrow> notify_each permissions | _ \<Rightarrow> Return)"

text \<open>
  The body of \<open>eth_requestAccounts\<close> after the unlock step: try the accounts, ask for the
  permission if there are none, try again.
\<close>

definition fetchOrRequestAccounts :: task where
  "fetchOrRequestAccounts =
     GetAccounts (\<lambda>answer. case answer of
        Inl err \<Rightarrow> Throw err
      | Inr accounts \<Rightarrow>
          if length accounts > 0 then SetResult (JArr accounts) Return
          else
            RequestAccountsPermission (\<lambda>rejected. case rejected of
               Some err \<Rightarrow> SetError err Return
             | None \<Rightarrow>
                 GetAccounts (\<lambda>answer. case answer of
                    Inl err \<Rightarrow> Throw err
                  | Inr accounts \<Rightarrow>
                      if length accounts > 0 then SetResult (JArr accounts) Return
                      else
                        SetError
                          (Internal (Text
                             ''Accounts unexpectedly unavailable. Please report this bug.''))
                          Return)))"

text \<open>
  The middleware that \<open>createPermissionsMethodMiddleware\<close> returns, the \<open>switch\<close> on
  \<open>req.method\<close> as a chain of comparisons in the order of its cases. The closure
  variable \<open>isProcessingRequestAccounts\<close> is the flag of the state.
\<close>

definition createPermissionsMethodMiddleware :: "request \<Rightarrow> task" where
  "createPermissionsMethodMiddleware req =
     (if method req = ''eth_accounts'' then
        GetAccounts (\<lambda>answer. case answer of
           Inl err \<Rightarrow> Throw err
         | Inr accounts \<Rightarrow> SetResult (JArr accounts) Return)
      else if method req = ''eth_sysInfo'' then
        ChromeSystem (\<lambda>info. SetResult (getSysInfoHash info) Return)
      else if method req = ''eth_requestAccounts'' then
        ReadFlag (\<lambda>isProcessingRequestAccounts.
          if isProcessingRequestAccounts then
            SetError
              (ResourceUnavailable (Text ''Already processing eth_requestAccounts. Please wait.''))
              Return
          else
            HasPermission ''eth_accounts'' (\<lambda>granted.
              if granted then
                WriteFlag True
                  (GetUnlockPromise (\<lambda>rejected. case rejected of
                     Some err \<Rightarrow> Throw err
                   | None \<Rightarrow> WriteFlag False fetchOrRequestAccounts))
              else fetchOrRequestAccounts))
      else if method req = ''metamask_sendDomainMetadata'' then
        (if typeof_string (field ''name'' (params req)) then
           AddDomainMetadata (origin req) (params req) (SetResult (JBool True) Return)
         else SetResult (JBool True) Return)
      else if method req = ''wallet_requestPermissions'' then
        (case js_in ''eth_accounts'' (elem0 (params req)) of
           Inl err \<Rightarrow> Throw err
         | Inr wanted \<Rightarrow> Next (if wanted then Detach responseHandler else Return))
      else Next Return)"

section \<open>Vocabulary of the properties\<close>

text \<open>
  A sample value of the imported constants, with chain \<open>0x1\<close> built in as in the
  examples of the spec (section 8), and collaborators of a wallet whose active chain is
  \<open>0x3\<close>, which has no accounts, no permission and no custom network, and whose user
  approves every prompt with the descriptor shown.
\<close>

definition sample_constants :: constants where
  "sample_constants =
     \<lparr>SWITCH_ETHEREUM_CHAIN = ''wallet_switchEthereumChain'',
      ADD_ETHEREUM_CHAIN = ''wallet_addEthereumChain'',
      ETH_SYMBOL = ''ETH'',
      CHAIN_ID_TO_TYPE_MAP = [''0x1'' \<mapsto> ''mainnet''],
      NETWORK_TO_NAME_MAP = [''0x1'' \<mapsto> ''Ethereum Mainnet''],
      CHAIN_ID_TO_RPC_URL_MAP = [''0x1'' \<mapsto> ''https://mainnet.example'']\<rparr>"

definition sample_env :: env where
  "sample_env =
     \<lparr>getAccounts = (\<lambda>tr. Inr []),
      getUnlockPromise = (\<lambda>tr. None),
      hasPermission = (\<lambda>tr n. False),
      requestAccountsPermission = (\<lambda>tr. None),
      downstream = (\<lambda>tr r. r),
      chromeSystem = (\<lambda>tr. None),
      getCurrentChainId = (\<lambda>tr. ''0x3''),
      findCustomRpcBy = (\<lambda>tr c. JUndefined),
      updateRpcTarget = (\<lambda>tr d. None),
      requestUserApproval = (\<lambda>tr a. Inr (field ''requestData'' a))\<rparr>"

text \<open>The same collaborators when the active chain is \<open>0x1\<close>.\<close>

definition mainnet_env :: env where
  "mainnet_env = sample_env\<lparr>getCurrentChainId := \<lambda>tr. ''0x1''\<rparr>"

definition fresh_response :: response where
  "fresh_response = \<lparr>result = None, error = None\<rparr>"

definition idle :: state where
  "idle = \<lparr>flag = False, res = fresh_response, trace = []\<rparr>"

text \<open>A switch-chain request with the one parameter object \<open>{chainId: c}\<close>.\<close>

definition switch_request :: "string \<Rightarrow> string \<Rightarrow> request" where
  "switch_request org c =
     \<lparr>method = ''wallet_switchEthereumChain'',
      params = JArr [JObj [(''chainId'', JStr c)]],
      origin = org\<rparr>"

text \<open>The events of a run: those added to the ones the state started with.\<close>

definition events_since :: "state \<Rightarrow> state \<Rightarrow> event list" where
  "events_since s s' = drop (length (trace s)) (trace s')"

fun is_approval :: "event \<Rightarrow> bool" where
  "is_approval (CalledRequestUserApproval a r) = True"
| "is_approval e = False"

fun is_mutation :: "event \<Rightarrow> bool" where
  "is_mutation (CalledSetProviderType v) = True"
| "is_mutation (CalledUpdateRpcTarget d r) = True"
| "is_mutation e = False"

fun is_flag_write :: "event \<Rightarrow> bool" where
  "is_flag_write (FlagWrite b) = True"
| "is_flag_write e = False"

text \<open>
  Approval gates mutation: reading the events in order, no mutation of the active
  network comes before a user approval that resolved. The first argument says whether
  one has been seen.
\<close>

fun approval_gates :: "bool \<Rightarrow> event list \<Rightarrow> bool" where
  "approval_gates approved [] = True"
| "approval_gates approved (CalledRequestUserApproval a (Inr d) # es) = approval_gates True es"
| "approval_gates approved (CalledSetProviderType v # es) = (approved \<and> approval_gates approved es)"
| "approval_gates approved (CalledUpdateRpcTarget d r # es) = (approved \<and> approval_gates approved es)"
| "approval_gates approved (e # es) = approval_gates approved es"

text \<open>
  A malformed switch-chain request, in the words of the validator's contract: the first
  parameter is missing or is no object, or it has a key other than \<open>chainId\<close>, or its
  \<open>chainId\<close> is not a string, or the lower-cased \<open>chainId\<close> is not a 0x-prefixed,
  unpadded, non-zero hex string, or its value exceeds \<open>2^53 - 1\<close>.
\<close>

definition malformed :: "request \<Rightarrow> bool" where
  "malformed req =
     (case elem0 (params req) of
        JObj kvs \<Rightarrow>
          (\<exists>k \<in> set (map fst kvs). k \<noteq> ''chainId'')
          \<or> (case map_of kvs ''chainId'' of
                Some (JStr c) \<Rightarrow>
                  \<not> isPrefixedFormattedHexString (JStr (toLowerCase c))
                  \<or> 2 ^ 53 - 1 < parseInt16 (JStr (toLowerCase c))
              | _ \<Rightarrow> True)
      | _ \<Rightarrow> True)"

text \<open>The normalized chain identifier of a request: the submitted string, lower-cased.\<close>

definition normalized :: "request \<Rightarrow> string" where
  "normalized req =
     (case field ''chainId'' (elem0 (params req)) of JStr c \<Rightarrow> toLowerCase c | _ \<Rightarrow> [])"

text \<open>
  The middleware does not intercept a request: all it does is call \<open>next\<close> once, so that
  the response is whatever the rest of the chain made of it.
\<close>

definition forwards_unchanged :: "request \<Rightarrow> env \<Rightarrow> state \<Rightarrow> bool" where
  "forwards_unchanged req E s =
     (exec (createPermissionsMethodMiddleware req) E s
        = (Returned, log CalledNext (s\<lparr>res := downstream E (trace s) (res s)\<rparr>)))"

text \<open>The resource-unavailable error of a second \<open>eth_requestAccounts\<close>.\<close>

definition busy_error :: js_error where
  "busy_error =
     ResourceUnavailable (Text ''Already processing eth_requestAccounts. Please wait.'')"

text \<open>The params of a request are an object with a string \<open>name\<close>.\<close>

definition has_string_name :: "jsval \<Rightarrow> bool" where
  "has_string_name p =
     (case p of
        JObj kvs \<Rightarrow> (case map_of kvs ''name'' of Some (JStr n) \<Rightarrow> True | _ \<Rightarrow> False)
      | _ \<Rightarrow> False)"

text \<open>A task that is suspended in the wait for the accounts permission.\<close>

fun waits_for_permission :: "task \<Rightarrow> bool" where
  "waits_for_permission (RequestAccountsPermission k) = True"
| "waits_for_permission t = False"

text \<open>Requests used as examples.\<close>

definition extra_key_request :: request where
  "extra_key_request =
     \<lparr>method = ''wallet_switchEthereumChain'',
      params = JArr [JObj [(''chainId'', JStr ''0x1''), (''foo'', JNum 1)]],
      origin = ''https://example.com''\<rparr>"

definition unprintable_request :: request where
  "unprintable_request =
     \<lparr>method = ''wallet_switchEthereumChain'',
      params = JArr [JObj [(''chainId'', JObj [(''toString'', JNum 1)])]],
      origin = ''https://example.com''\<rparr>"

definition accounts_request :: request where
  "accounts_request =
     \<lparr>method = ''eth_requestAccounts'', params = JArr [], origin = ''https://example.com''\<rparr>"

definition metadata_request :: request where
  "metadata_request =
     \<lparr>method = ''metamask_sendDomainMetadata'',
      params = JObj [(''name'', JStr ''Example'')],
      origin = ''https://example.com''\<rparr>"

definition permissions_request :: request where
  "permissions_request =
     \<lparr>method = ''wallet_requestPermissions'', params = JArr [], origin = ''https://example.com''\<rparr>"

definition sysinfo_request :: request where
  "sysinfo_request =
     \<lparr>method = ''eth_sysInfo'', params = JArr [], origin = ''https://example.com''\<rparr>"

definition chain_id_request :: request where
  "chain_id_request =
     \<lparr>method = ''eth_chainId'', params = JArr [], origin = ''https://example.com''\<rparr>"

section \<open>Basic facts\<close>

lemmas sample_defs =
  sample_constants_def sample_env_def idle_def fresh_response_def switch_request_def

lemmas switch_defs =
  switchEthereumChainHandler_def findExistingNetwork_def log_def Let_def
  toLowerCase_def to_lower_def is_hex_digit_def isSafeChainId_def hex_digit_value_def

text \<open>The fingerprint hash of the empty string, computed on the 32-bit words.\<close>

lemma hash_empty: "hash [] 0 = 3338908027751811"
  by (simp add: hash_def)

text \<open>Running to the next suspension and then to the end is running to the end.\<close>

lemma exec_sync: "exec (fst (sync t E s)) E (snd (sync t E s)) = exec t E s"
  by (induction t arbitrary: s) (simp_all add: Let_def case_prod_beta)

lemma exec_wake: "exec (fst (wake t E s)) E (snd (wake t E s)) = exec t E s"
  by (induction t arbitrary: s) (simp_all add: Let_def exec_sync case_prod_beta)

lemma typeof_string_name: "typeof_string (field ''name'' p) = has_string_name p"
  by (auto simp: has_string_name_def split: jsval.splits option.splits)

text \<open>What a request that is not malformed looks like.\<close>

lemma well_formedE:
  assumes "\<not> malformed req"
  obtains kvs c where
    "elem0 (params req) = JObj kvs"
    "map_of kvs ''chainId'' = Some (JStr c)"
    "keys_omit (JObj kvs) ''chainId'' = []"
    "normalized req = toLowerCase c"
    "isPrefixedFormattedHexString (JStr (toLowerCase c))"
    "isSafeChainId (parseInt16 (JStr (toLowerCase c)))"
  using assms
  by (auto simp: malformed_def normalized_def isSafeChainId_def filter_empty_conv
      split: jsval.splits option.splits)

section \<open>The chain-switch handler: properties\<close>

text \<open>
  Claim C1, that no request reaches \<open>setProviderType\<close> or \<open>updateRpcTarget\<close> before
  \<open>requestUserApproval\<close> has resolved for it, fails on the handler: a request from the
  origin \<open>http://localhost:3000\<close> for the built-in chain \<open>0x1\<close>, while chain \<open>0x3\<close> is
  active, switches the provider type and ends with result \<open>null\<close>, and the user is never
  asked.
\<close>

theorem listed_origin_switches_without_approval:
  "exec (switchEthereumChainHandler sample_constants
           (switch_request ''http://localhost:3000'' ''0x1'')) sample_env idle
     = (Returned,
        \<lparr>flag = False, res = \<lparr>result = Some JNull, error = None\<rparr>,
         trace = [CalledGetCurrentChainId ''0x3'',
                  CalledSetProviderType (JStr ''mainnet''),
                  Ended None]\<rparr>)
   \<and> \<not> approval_gates False
         (trace (snd (exec (switchEthereumChainHandler sample_constants
                              (switch_request ''http://localhost:3000'' ''0x1'')) sample_env idle)))"
  by (simp add: sample_defs switch_defs)

theorem listed_origin_switches_without_approval_witness:
  "filter is_approval
     (trace (snd (exec (switchEthereumChainHandler sample_constants
                          (switch_request ''http://localhost:3000'' ''0x1'')) sample_env idle)))
     = []
   \<and> filter is_mutation
       (trace (snd (exec (switchEthereumChainHandler sample_constants
                            (switch_request ''http://localhost:3000'' ''0x1'')) sample_env idle)))
     = [CalledSetProviderType (JStr ''mainnet'')]"
  using listed_origin_switches_without_approval [THEN conjunct1] by simp

text \<open>
  Claim C3, that an approved switch to a chain whose normalized identifier is built in
  only sets the provider type, fails on the handler where the identifier as submitted
  differs from its normalized form: after the approval the handler looks the submitted
  identifier up in the built-in table, not the normalized one. For \<open>0X1\<close>, whose
  normalized form \<open>0x1\<close> is built in, the approved descriptor goes to \<open>updateRpcTarget\<close>
  and \<open>setProviderType\<close> is not called.
\<close>

theorem approved_builtin_chain_updates_rpc_target:
  "has_key (CHAIN_ID_TO_TYPE_MAP sample_constants)
     (JStr (normalized (switch_request ''https://example.com'' ''0X1'')))
   \<and> filter (\<lambda>e. is_approval e \<or> is_mutation e)
       (trace (snd (exec (switchEthereumChainHandler sample_constants
                            (switch_request ''https://example.com'' ''0X1'')) sample_env idle)))
     = [CalledRequestUserApproval
          (JObj [(''origin'', JStr ''https://example.com''),
                 (''type'', JStr ''wallet_switchEthereumChain''),
                 (''requestData'',
                    JObj [(''chainId'', JStr ''0x1''), (''ticker'', JStr ''ETH''),
                          (''nickname'', JStr ''Ethereum Mainnet''),
                          (''rpcUrl'', JStr ''https://mainnet.example''),
                          (''type'', JStr ''mainnet'')])])
          (Inr (JObj [(''chainId'', JStr ''0x1''), (''ticker'', JStr ''ETH''),
                      (''nickname'', JStr ''Ethereum Mainnet''),
                      (''rpcUrl'', JStr ''https://mainnet.example''),
                      (''type'', JStr ''mainnet'')])),
        CalledUpdateRpcTarget
          (JObj [(''chainId'', JStr ''0x1''), (''ticker'', JStr ''ETH''),
                 (''nickname'', JStr ''Ethereum Mainnet''),
                 (''rpcUrl'', JStr ''https://mainnet.example''),
                 (''type'', JStr ''mainnet'')])
          None]"
  by (simp add: sample_defs switch_defs normalized_def)

theorem approved_builtin_chain_updates_rpc_target_witness:
  "filter is_mutation
     (trace (snd (exec (switchEthereumChainHandler sample_constants
                          (switch_request ''https://example.com'' ''0X1'')) sample_env idle)))
     = [CalledUpdateRpcTarget
          (JObj [(''chainId'', JStr ''0x1''), (''ticker'', JStr ''ETH''),
                 (''nickname'', JStr ''Ethereum Mainnet''),
                 (''rpcUrl'', JStr ''https://mainnet.example''),
                 (''type'', JStr ''mainnet'')])
          None]"
proof -
  have narrow: "filter is_mutation es
      = filter is_mutation (filter (\<lambda>e. is_approval e \<or> is_mutation e) es)" for es
    by (induction es) auto
  show ?thesis
    by (subst narrow)
      (simp add: approved_builtin_chain_updates_rpc_target [THEN conjunct2])
qed

text \<open>
  Claim C4 as stated, for every request whose normalized chain identifier resolves to a
  descriptor and is the active chain, fails on the handler, which validates the whole
  parameter object before it compares chains: a request for the built-in and active
  chain \<open>0x1\<close> that carries a second key ends with an invalid-parameters error and
  no result.
\<close>

theorem active_chain_with_extra_key_is_rejected:
  "has_key (CHAIN_ID_TO_TYPE_MAP sample_constants) (JStr (normalized extra_key_request))
   \<and> getCurrentChainId mainnet_env [] = normalized extra_key_request
   \<and> exec (switchEthereumChainHandler sample_constants extra_key_request) mainnet_env idle
     = (Returned,
        \<lparr>flag = False, res = \<lparr>result = None, error = None\<rparr>,
         trace = [Ended (Some (InvalidParams (UnexpectedKeys [''foo''])))]\<rparr>)"
  by (simp add: extra_key_request_def mainnet_env_def normalized_def sample_defs switch_defs)

text \<open>
  Claim C4, amended: a request that is well formed, whose normalized chain identifier
  resolves to a descriptor (built in, or found in the custom network store) and is the
  active chain, ends without error and with result \<open>null\<close>, and neither the approval
  collaborator nor \<open>setProviderType\<close> or \<open>updateRpcTarget\<close> is called.
\<close>

theorem switch_to_active_chain_is_noop:
  assumes wf: "\<not> malformed req"
    and known: "has_key (CHAIN_ID_TO_TYPE_MAP K) (JStr (normalized req))
           \<or> truthy (findCustomRpcBy E (trace s) (JObj [(''chainId'', JStr (normalized req))]))"
    and active: "\<And>tr. getCurrentChainId E tr = normalized req"
  shows "case exec (switchEthereumChainHandler K req) E s of
           (c, s') \<Rightarrow>
              c = Returned \<and> result (res s') = Some JNull \<and> error (res s') = error (res s)
              \<and> last (trace s') = Ended None
              \<and> list_all (\<lambda>e. \<not> is_approval e \<and> \<not> is_mutation e) (events_since s s')"
proof -
  from wf obtain kvs c where *:
    "elem0 (params req) = JObj kvs"
    "map_of kvs ''chainId'' = Some (JStr c)"
    "keys_omit (JObj kvs) ''chainId'' = []"
    "normalized req = toLowerCase c"
    "isPrefixedFormattedHexString (JStr (toLowerCase c))"
    "isSafeChainId (parseInt16 (JStr (toLowerCase c)))"
    by (rule well_formedE)
  show ?thesis
  proof (cases "has_key (CHAIN_ID_TO_TYPE_MAP K) (JStr (normalized req))")
    case True
    with * active show ?thesis
      by (simp add: switchEthereumChainHandler_def findExistingNetwork_def Let_def log_def
          events_since_def)
  next
    case False
    with known
    have "truthy (findCustomRpcBy E (trace s) (JObj [(''chainId'', JStr (normalized req))]))"
      by simp
    with False * active show ?thesis
      by (simp add: switchEthereumChainHandler_def findExistingNetwork_def Let_def log_def
          events_since_def)
  qed
qed

theorem switch_to_active_chain_is_noop_witness:
  "\<not> malformed (switch_request ''https://example.com'' ''0x1'')
   \<and> exec (switchEthereumChainHandler sample_constants
             (switch_request ''https://example.com'' ''0x1''))
        mainnet_env idle
     = (Returned,
        \<lparr>flag = False, res = \<lparr>result = Some JNull, error = None\<rparr>,
         trace = [CalledGetCurrentChainId ''0x1'', Ended None]\<rparr>)"
proof -
  let ?req = "switch_request ''https://example.com'' ''0x1''"
  let ?E = "mainnet_env"
  have wf: "\<not> malformed ?req"
    by (simp add: malformed_def sample_defs switch_defs)
  have known: "has_key (CHAIN_ID_TO_TYPE_MAP sample_constants) (JStr (normalized ?req))
       \<or> truthy (findCustomRpcBy ?E (trace idle) (JObj [(''chainId'', JStr (normalized ?req))]))"
    by (simp add: normalized_def sample_defs switch_defs)
  have active: "\<And>tr. getCurrentChainId ?E tr = normalized ?req"
    by (simp add: mainnet_env_def normalized_def sample_defs switch_defs)
  from switch_to_active_chain_is_noop [OF wf known active] wf show ?thesis
    by (simp add: mainnet_env_def sample_defs switch_defs)
qed

text \<open>
  A malformed request whose \<open>chainId\<close> has a string ends with an invalid-parameters
  error passed to \<open>end\<close>, and that call is the only event: no approval, no lookup in the
  custom network store, no mutation, and the response object is left as it was.
\<close>

lemma stringifiable_malformed_request_is_rejected:
  assumes "malformed req" and "stringifiable (field ''chainId'' (elem0 (params req)))"
  shows "\<exists>m. exec (switchEthereumChainHandler K req) E s
               = (Returned, s\<lparr>trace := trace s @ [Ended (Some (InvalidParams m))]\<rparr>)"
  using assms
  by (auto simp: malformed_def switchEthereumChainHandler_def Let_def filter_empty_conv
        isSafeChainId_def log_def
      split: jsval.splits option.splits list.splits)

text \<open>
  Claim C5, that every malformed request ends with an invalid-parameters error, fails on
  the handler for a \<open>chainId\<close> that is no string and has no string either. The request
  with \<open>chainId = {"toString": 1}\<close> is malformed; the handler builds the message of the
  error from \<open>chainId\<close>, the conversion throws a \<open>TypeError\<close> outside any \<open>try\<close>, and
  \<open>end\<close> is never called: no error reaches the response. The two validation helpers are
  as the spec describes them.
\<close>

theorem unprintable_chain_id_throws:
  "malformed unprintable_request
   \<and> exec (switchEthereumChainHandler sample_constants unprintable_request) sample_env idle
     = (Threw TypeError, idle)"
  by (simp add: malformed_def unprintable_request_def sample_defs switch_defs)

theorem unprintable_chain_id_throws_witness:
  "fst (exec (switchEthereumChainHandler sample_constants unprintable_request) sample_env idle)
     = Threw TypeError
   \<and> trace (snd (exec (switchEthereumChainHandler sample_constants unprintable_request)
                      sample_env idle)) = []"
  using unprintable_chain_id_throws [THEN conjunct2] by (simp add: idle_def)

text \<open>
  Claim C6: a well-formed request whose normalized chain identifier is neither built in
  nor found in the custom network store ends with the custom error of code 4902 passed
  to \<open>end\<close>; the lookup in the store is the only other event, so there is no approval and
  no mutation. The error is made of the request alone, so a repeated call, whatever the
  state it starts in, ends with the same one.
\<close>

theorem unrecognized_chain_is_rejected:
  assumes wf: "\<not> malformed req"
    and not_builtin: "\<not> has_key (CHAIN_ID_TO_TYPE_MAP K) (JStr (normalized req))"
    and absent: "\<not> truthy (findCustomRpcBy E (trace s) (JObj [(''chainId'', JStr (normalized req))]))"
    and absent': "\<not> truthy (findCustomRpcBy E' (trace s') (JObj [(''chainId'', JStr (normalized req))]))"
  shows "exec (switchEthereumChainHandler K req) E s =
           (Returned,
            s\<lparr>trace := trace s @
                 [CalledFindCustomRpcBy (JObj [(''chainId'', JStr (normalized req))])
                    (findCustomRpcBy E (trace s) (JObj [(''chainId'', JStr (normalized req))])),
                  Ended (Some (ProviderCustom 4902
                    (UnrecognizedChainId (field ''chainId'' (elem0 (params req)))
                       (ADD_ETHEREUM_CHAIN K))))]\<rparr>)
       \<and> last (trace (snd (exec (switchEthereumChainHandler K req) E' s')))
           = last (trace (snd (exec (switchEthereumChainHandler K req) E s)))"
proof -
  from wf obtain kvs c where *:
    "elem0 (params req) = JObj kvs"
    "map_of kvs ''chainId'' = Some (JStr c)"
    "keys_omit (JObj kvs) ''chainId'' = []"
    "normalized req = toLowerCase c"
    "isPrefixedFormattedHexString (JStr (toLowerCase c))"
    "isSafeChainId (parseInt16 (JStr (toLowerCase c)))"
    by (rule well_formedE)
  with not_builtin absent absent' show ?thesis
    by (simp add: switchEthereumChainHandler_def findExistingNetwork_def Let_def log_def)
qed

theorem unrecognized_chain_is_rejected_witness:
  "exec (switchEthereumChainHandler sample_constants
           (switch_request ''https://example.com'' ''0x999999'')) sample_env idle
     = (Returned,
        \<lparr>flag = False, res = \<lparr>result = None, error = None\<rparr>,
         trace = [CalledFindCustomRpcBy (JObj [(''chainId'', JStr ''0x999999'')]) JUndefined,
                  Ended (Some (ProviderCustom 4902
                    (UnrecognizedChainId (JStr ''0x999999'') ''wallet_addEthereumChain'')))]\<rparr>)
   \<and> last (trace (snd (exec (switchEthereumChainHandler sample_constants
                               (switch_request ''https://example.com'' ''0x999999''))
                          sample_env (idle\<lparr>flag := True\<rparr>))))
     = Ended (Some (ProviderCustom 4902
         (UnrecognizedChainId (JStr ''0x999999'') ''wallet_addEthereumChain'')))"
proof -
  let ?req = "switch_request ''https://example.com'' ''0x999999''"
  have wf: "\<not> malformed ?req"
    by (simp add: malformed_def sample_defs switch_defs)
  have nb: "\<not> has_key (CHAIN_ID_TO_TYPE_MAP sample_constants) (JStr (normalized ?req))"
    by (simp add: normalized_def sample_defs switch_defs)
  have ab: "\<not> truthy (findCustomRpcBy sample_env (trace idle)
                       (JObj [(''chainId'', JStr (normalized ?req))]))"
    by (simp add: sample_defs)
  have ab': "\<not> truthy (findCustomRpcBy sample_env (trace (idle\<lparr>flag := True\<rparr>))
                       (JObj [(''chainId'', JStr (normalized ?req))]))"
    by (simp add: sample_defs)
  from unrecognized_chain_is_rejected [OF wf nb ab ab'] show ?thesis
    by (simp add: normalized_def sample_defs switch_defs)
qed

section \<open>The permissions method middleware: properties\<close>

lemmas request_defs =
  accounts_request_def metadata_request_def permissions_request_def sysinfo_request_def
  chain_id_request_def

text \<open>
  Claim C2 as stated, with the intercepted set being the accounts query, the gated
  accounts request, the domain metadata registration and the permission request, fails
  on the middleware: \<open>eth_sysInfo\<close> is none of the four, and the middleware answers it
  itself and never calls \<open>next\<close>.
\<close>

theorem sysinfo_is_intercepted:
  "method sysinfo_request \<notin> set [''eth_accounts'', ''eth_requestAccounts'',
                                  ''metamask_sendDomainMetadata'', ''wallet_requestPermissions'']
   \<and> \<not> forwards_unchanged sysinfo_request sample_env idle
   \<and> exec (createPermissionsMethodMiddleware sysinfo_request) sample_env idle
     = (Returned,
        \<lparr>flag = False, res = \<lparr>result = Some (JStr ''NO_SUCCESS''), error = None\<rparr>,
         trace = [CalledChromeSystem None]\<rparr>)"
  by (simp add: forwards_unchanged_def createPermissionsMethodMiddleware_def sample_defs
      request_defs log_def getSysInfoHash_def)

text \<open>
  Claim C2, amended: a request whose method is none of \<open>eth_accounts\<close>, \<open>eth_sysInfo\<close>,
  \<open>eth_requestAccounts\<close>, \<open>metamask_sendDomainMetadata\<close> and
  \<open>wallet_requestPermissions\<close> is not intercepted: the middleware calls \<open>next\<close> and does
  nothing else, and sets neither result nor error.
\<close>

theorem other_methods_are_forwarded:
  assumes "method req \<notin> set [''eth_accounts'', ''eth_sysInfo'', ''eth_requestAccounts'',
                              ''metamask_sendDomainMetadata'', ''wallet_requestPermissions'']"
  shows "forwards_unchanged req E s"
  using assms by (simp add: forwards_unchanged_def createPermissionsMethodMiddleware_def)

theorem other_methods_are_forwarded_witness:
  "method chain_id_request \<notin> set [''eth_accounts'', ''eth_sysInfo'', ''eth_requestAccounts'',
                                   ''metamask_sendDomainMetadata'', ''wallet_requestPermissions'']
   \<and> forwards_unchanged chain_id_request sample_env idle"
proof -
  have other: "method chain_id_request \<notin> set [''eth_accounts'', ''eth_sysInfo'',
      ''eth_requestAccounts'', ''metamask_sendDomainMetadata'', ''wallet_requestPermissions'']"
    by (simp add: request_defs)
  from other_methods_are_forwarded [OF other] other show ?thesis
    by blast
qed

text \<open>
  Claim C7: an \<open>eth_requestAccounts\<close> that arrives while the flag is set ends at once
  with the resource-unavailable error in the response. It returns in its first
  synchronous run, without suspending, and calls no collaborator: the events and the
  flag are as before.
\<close>

theorem busy_accounts_request_fails_at_once:
  assumes "method req = ''eth_requestAccounts''" and "flag s"
  shows "exec (createPermissionsMethodMiddleware req) E s
           = (Returned, s\<lparr>res := (res s)\<lparr>error := Some busy_error\<rparr>\<rparr>)
       \<and> sync (createPermissionsMethodMiddleware req) E s
           = (Return, s\<lparr>res := (res s)\<lparr>error := Some busy_error\<rparr>\<rparr>)"
  using assms by (simp add: createPermissionsMethodMiddleware_def busy_error_def)

theorem busy_accounts_request_fails_at_once_witness:
  "flag (idle\<lparr>flag := True\<rparr>)
   \<and> exec (createPermissionsMethodMiddleware accounts_request) sample_env (idle\<lparr>flag := True\<rparr>)
     = (Returned,
        \<lparr>flag = True, res = \<lparr>result = None, error = Some busy_error\<rparr>, trace = []\<rparr>)
   \<and> sync (createPermissionsMethodMiddleware accounts_request) sample_env (idle\<lparr>flag := True\<rparr>)
     = (Return,
        \<lparr>flag = True, res = \<lparr>result = None, error = Some busy_error\<rparr>, trace = []\<rparr>)"
proof -
  have m: "method accounts_request = ''eth_requestAccounts''"
    by (simp add: request_defs)
  have f: "flag (idle\<lparr>flag := True\<rparr>)"
    by simp
  from busy_accounts_request_fails_at_once [OF m f, of sample_env] show ?thesis
    by (simp add: sample_defs)
qed

text \<open>
  Claim C8: a \<open>metamask_sendDomainMetadata\<close> request always ends with result \<open>true\<close>,
  and \<open>addDomainMetadata\<close> is called, with the origin and the params of the request,
  exactly when the params are an object with a string \<open>name\<close>; no other collaborator is
  called.
\<close>

theorem domain_metadata_is_stored_iff_named:
  assumes "method req = ''metamask_sendDomainMetadata''"
  shows "exec (createPermissionsMethodMiddleware req) E s =
           (Returned,
            s\<lparr>res := (res s)\<lparr>result := Some (JBool True)\<rparr>,
              trace := trace s @
                (if has_string_name (params req)
                 then [CalledAddDomainMetadata (origin req) (params req)] else [])\<rparr>)"
  using assms by (simp add: createPermissionsMethodMiddleware_def typeof_string_name log_def)

theorem domain_metadata_is_stored_iff_named_witness:
  "exec (createPermissionsMethodMiddleware metadata_request) sample_env idle
     = (Returned,
        \<lparr>flag = False, res = \<lparr>result = Some (JBool True), error = None\<rparr>,
         trace = [CalledAddDomainMetadata ''https://example.com''
                    (JObj [(''name'', JStr ''Example'')])]\<rparr>)
   \<and> exec (createPermissionsMethodMiddleware (metadata_request\<lparr>params := JArr []\<rparr>))
        sample_env idle
     = (Returned,
        \<lparr>flag = False, res = \<lparr>result = Some (JBool True), error = None\<rparr>, trace = []\<rparr>)"
proof -
  have m: "method metadata_request = ''metamask_sendDomainMetadata''"
    by (simp add: request_defs)
  have m': "method (metadata_request\<lparr>params := JArr []\<rparr>) = ''metamask_sendDomainMetadata''"
    by (simp add: request_defs)
  from domain_metadata_is_stored_iff_named [OF m, of sample_env idle]
    domain_metadata_is_stored_iff_named [OF m', of sample_env idle]
  show ?thesis
    by (simp add: has_string_name_def request_defs sample_defs)
qed

text \<open>
  Claim C9: an \<open>eth_requestAccounts\<close> that enters with the flag clear and finds the
  \<open>eth_accounts\<close> permission missing never assigns the flag, however the collaborators
  answer. In particular, when there are no accounts it is suspended in the wait for the
  permission with the flag still clear, and a second \<open>eth_requestAccounts\<close> that enters
  at that moment gets no error in its first run and is itself suspended.
\<close>

theorem ungranted_accounts_request_leaves_flag_clear:
  assumes "method req = ''eth_requestAccounts''" and "method req2 = ''eth_requestAccounts''"
    and "\<not> flag s"
    and "\<not> hasPermission E (trace s) ''eth_accounts''"
  shows "(case exec (createPermissionsMethodMiddleware req) E s of
            (c, s') \<Rightarrow> \<not> flag s' \<and> list_all (\<lambda>e. \<not> is_flag_write e) (events_since s s'))
       \<and> (getAccounts E (trace s @ [CalledHasPermission ''eth_accounts'' False]) = Inr [] \<longrightarrow>
            (case sync (createPermissionsMethodMiddleware req) E s of
               (t0, s0) \<Rightarrow>
                 (case wake t0 E s0 of
                    (t1, s1) \<Rightarrow>
                      waits_for_permission t1 \<and> \<not> flag s1
                      \<and> (case sync (createPermissionsMethodMiddleware req2) E
                                  (s1\<lparr>res := fresh_response\<rparr>) of
                           (t2, s2) \<Rightarrow> error (res s2) = None \<and> t2 \<noteq> Return))))"
  using assms
  by (auto simp: createPermissionsMethodMiddleware_def fetchOrRequestAccounts_def Let_def log_def
        events_since_def fresh_response_def
      split: sum.splits option.splits)

theorem ungranted_accounts_request_leaves_flag_clear_witness:
  "\<not> flag idle
   \<and> \<not> hasPermission sample_env (trace idle) ''eth_accounts''
   \<and> getAccounts sample_env (trace idle @ [CalledHasPermission ''eth_accounts'' False]) = Inr []
   \<and> (case exec (createPermissionsMethodMiddleware accounts_request) sample_env idle of
         (c, s') \<Rightarrow> \<not> flag s' \<and> list_all (\<lambda>e. \<not> is_flag_write e) (events_since idle s'))
   \<and> (case sync (createPermissionsMethodMiddleware accounts_request) sample_env idle of
         (t0, s0) \<Rightarrow>
           (case wake t0 sample_env s0 of
              (t1, s1) \<Rightarrow>
                waits_for_permission t1 \<and> \<not> flag s1
                \<and> (case sync (createPermissionsMethodMiddleware accounts_request) sample_env
                            (s1\<lparr>res := fresh_response\<rparr>) of
                     (t2, s2) \<Rightarrow> error (res s2) = None \<and> t2 \<noteq> Return)))"
proof -
  have m: "method accounts_request = ''eth_requestAccounts''"
    by (simp add: request_defs)
  have f: "\<not> flag idle"
    by (simp add: sample_defs)
  have p: "\<not> hasPermission sample_env (trace idle) ''eth_accounts''"
    by (simp add: sample_defs)
  have a: "getAccounts sample_env (trace idle @ [CalledHasPermission ''eth_accounts'' False]) = Inr []"
    by (simp add: sample_defs)
  note run = ungranted_accounts_request_leaves_flag_clear [OF m m f p]
  from run [THEN conjunct1] run [THEN conjunct2, THEN mp, OF a] a f p show ?thesis
    by (intro conjI)
qed

text \<open>
  Claim C10: a \<open>wallet_requestPermissions\<close> request whose params are missing, or have no
  first element, makes the middleware throw a \<open>TypeError\<close>, the \<open>in\<close> operator being
  applied to \<open>undefined\<close>: the middleware's promise is rejected, the response gets no
  error (so no invalid-parameters error either), and \<open>next\<close> is not called.
\<close>

theorem permission_request_without_params_throws:
  assumes "method req = ''wallet_requestPermissions''" and "elem0 (params req) = JUndefined"
  shows "exec (createPermissionsMethodMiddleware req) E s = (Threw TypeError, s)"
  using assms by (simp add: createPermissionsMethodMiddleware_def)

theorem permission_request_without_params_throws_witness:
  "elem0 (params permissions_request) = JUndefined
   \<and> elem0 (params (permissions_request\<lparr>params := JUndefined\<rparr>)) = JUndefined
   \<and> exec (createPermissionsMethodMiddleware permissions_request) sample_env idle
       = (Threw TypeError, idle)
   \<and> exec (createPermissionsMethodMiddleware (permissions_request\<lparr>params := JUndefined\<rparr>))
        sample_env idle
       = (Threw TypeError, idle)"
proof -
  have m: "method permissions_request = ''wallet_requestPermissions''"
    and m': "method (permissions_request\<lparr>params := JUndefined\<rparr>) = ''wallet_requestPermissions''"
    by (simp_all add: request_defs)
  have e: "elem0 (params permissions_request) = JUndefined"
    and e': "elem0 (params (permissions_request\<lparr>params := JUndefined\<rparr>)) = JUndefined"
    by (simp_all add: request_defs)
  from permission_request_without_params_throws [OF m e, of sample_env idle]
    permission_request_without_params_throws [OF m' e', of sample_env idle] e e'
  show ?thesis
    by blast
qed

end
